theory Spec2Isabelle
  imports Complex_Main "HOL-Library.Sublist"
begin

section \<open>Data model (src/demo/src/utils/types.ts)\<close>

text \<open>
  The interfaces of \<^verbatim>\<open>types.ts\<close> as records. Field names are the source's, except
  where Isabelle reserves the word or a later record would shadow the selector:
  \<^verbatim>\<open>Chunk.text\<close> is \<open>chunk_text\<close>, \<^verbatim>\<open>RelevantDocument.id\<close> is \<open>doc_id\<close>, and the
  fields of \<^verbatim>\<open>SourceReference\<close> carry the prefix \<open>ref_\<close>.
  The similarity is a JavaScript number; only the constant 0 and values handed through
  unchanged occur below, so it is modelled as a real.
\<close>

record Chunk =
  chunk_id :: string
  source_file :: string
  section_title :: string
  chunk_text :: string
  similarity :: real

record RelevantDocument =
  doc_id :: string
  reason :: string

text \<open>
  \<^verbatim>\<open>DataCheckerResponse.relevant_documents\<close> is declared as an array, but every reader
  of it goes through \<^verbatim>\<open>checkerResult?.relevant_documents ?? []\<close>; the field is optional
  here so that the \<^verbatim>\<open>??\<close> branch of the source is a branch of the model.
\<close>

record DataCheckerResponse =
  relevant_documents :: "RelevantDocument list option"

record FinalAnswerResponse =
  logica :: string
  docuementacion :: string
  respuesta :: string
  handoff :: bool

record SourceReference =
  ref_chunk_id :: string
  ref_section_title :: string
  ref_source_file :: string

text \<open>
  The single-file server \<^verbatim>\<open>rag.ts\<close> (src/unnamed/part_004) declares the same
  interfaces, except that its \<^verbatim>\<open>FinalAnswerResponse\<close> has no \<^verbatim>\<open>handoff\<close> field.
\<close>

record LegacyFinalAnswerResponse =
  legacy_logica :: string
  legacy_docuementacion :: string
  legacy_respuesta :: string

section \<open>Validation of the selected identifiers (rag-pipeline.service.ts)\<close>

record ValidationResult =
  chunks :: "Chunk list"
  hadValidation :: bool
  hadFallback :: bool

text \<open>\<^verbatim>\<open>checkerResult?.relevant_documents ?? []\<close>\<close>

definition selected_documents :: "DataCheckerResponse option \<Rightarrow> RelevantDocument list" where
  "selected_documents checkerResult =
     (case checkerResult of
        None \<Rightarrow> []
      | Some r \<Rightarrow> (case relevant_documents r of None \<Rightarrow> [] | Some ds \<Rightarrow> ds))"

text \<open>
  \<^verbatim>\<open>validateAndGetRelevantChunks\<close>. The set \<^verbatim>\<open>validChunkIds\<close> is the set of identifiers
  of the original chunks; \<^verbatim>\<open>Array.prototype.slice(0, 2)\<close> is \<open>take 2\<close> (it never raises).
  The two \<^verbatim>\<open>console\<close> messages and the rejected count they print are not modelled.
\<close>

definition validateAndGetRelevantChunks ::
    "DataCheckerResponse option \<Rightarrow> Chunk list \<Rightarrow> ValidationResult" where
  "validateAndGetRelevantChunks checkerResult originalChunks =
     (let validChunkIds = set (map chunk_id originalChunks);
          validatedDocs = filter (\<lambda>d. doc_id d \<in> validChunkIds) (selected_documents checkerResult)
      in if length validatedDocs > 0
         then \<lparr>chunks = filter (\<lambda>c. list_ex (\<lambda>d. doc_id d = chunk_id c) validatedDocs) originalChunks,
               hadValidation = True, hadFallback = False\<rparr>
         else \<lparr>chunks = take 2 originalChunks, hadValidation = False, hadFallback = True\<rparr>)"

section \<open>Strings (JavaScript built-ins used by the services)\<close>

text \<open>
  Strings are lists of 8-bit characters, so the model covers replies in Latin-1. In that
  range \<^verbatim>\<open>String.prototype.trim\<close> strips TAB, LF, VT, FF, CR, SPACE and NBSP from both ends.
\<close>

definition is_js_space :: "char \<Rightarrow> bool" where
  "is_js_space c = (of_char c \<in> {9, 10, 11, 12, 13, 32, 160 :: nat})"

definition trim :: "string \<Rightarrow> string" where
  "trim s = rev (dropWhile is_js_space (rev (dropWhile is_js_space s)))"

text \<open>
  \<^verbatim>\<open>s.replace(/```json|```/g, "")\<close>: one left-to-right pass; at each position the first
  alternative is tried before the second, and scanning resumes after the match.
\<close>

fun replace_fences :: "string \<Rightarrow> string" where
  "replace_fences [] = []"
| "replace_fences (c # cs) =
     (if prefix ''```json'' (c # cs) then replace_fences (drop 6 cs)
      else if prefix ''```'' (c # cs) then replace_fences (drop 2 cs)
      else c # replace_fences cs)"

text \<open>\<^verbatim>\<open>Array.prototype.join\<close> on an array of strings.\<close>

fun join :: "string \<Rightarrow> string list \<Rightarrow> string" where
  "join sep [] = []"
| "join sep [x] = x"
| "join sep (x # y # ys) = x @ sep @ join sep (y # ys)"

definition nl :: string where
  "nl = [CHR 0x0A]"

text \<open>\<^verbatim>\<open>formatChunks\<close> (prompt.service.ts).\<close>

definition formatChunks :: "Chunk list \<Rightarrow> string" where
  "formatChunks cs =
     join (nl @ nl @ ''---'' @ nl @ nl)
       (map (\<lambda>c. ''DOCUMENT_ID: '' @ chunk_id c @ nl
                 @ ''Source: '' @ source_file c @ '' > '' @ section_title c @ nl
                 @ ''Content: '' @ chunk_text c @ nl
                 @ ''END_DOCUMENT_ID: '' @ chunk_id c) cs)"

text \<open>
  \<^verbatim>\<open>parseJSON\<close> (gemini.service.ts). \<^verbatim>\<open>JSON.parse\<close> belongs to the platform and is a
  parameter: it yields a value of the type the caller casts to, or \<open>None\<close> where it
  throws a \<^verbatim>\<open>SyntaxError\<close>.
\<close>

definition parseJSON :: "(string \<Rightarrow> 'a option) \<Rightarrow> string \<Rightarrow> 'a option" where
  "parseJSON JSON_parse raw = JSON_parse (trim (replace_fences (trim raw)))"

section \<open>Collaborators, errors and effects\<close>

datatype error =
    ProviderError
  | PromptStoreError
  | StoreError
  | CannotParseColumnType string
  | FatalProductionMismatch nat nat
  | PaddingNotSafe nat nat

text \<open>
  The table \<^verbatim>\<open>document_chunks\<close> as the queries of embedding.service.ts read it: the
  four selected columns and the embedding. \<open>db_available\<close> is false when
  \<^verbatim>\<open>db.execute\<close> rejects; \<open>col_type\<close> is the \<^verbatim>\<open>format_type\<close> of the embedding
  column, absent when the catalogue query returns no row.
\<close>

record DocumentChunkRow =
  row_chunk_id :: string
  row_source_file :: string
  row_section_title :: string
  row_text :: string
  row_embedding :: "real list"

record Database =
  db_available :: bool
  col_type :: "string option"
  document_chunks :: "DocumentChunkRow list"

text \<open>
  Everything outside the repository that a request touches: the embedding and the
  generation model, the prompt hub (\<open>buildPrompt\<close> is the string that
  \<^verbatim>\<open>buildPrompt\<close> of prompt.service.ts resolves to for a prompt name and its variables,
  or the error of the hub; the flattening of the hub's messages is not modelled), the database, the
  \<^verbatim>\<open><=>\<close> operator of pgvector, \<^verbatim>\<open>ENV.isProd\<close>, and \<^verbatim>\<open>JSON.parse\<close> at the
  types it is cast to.
\<close>

record Env =
  embedContent :: "string \<Rightarrow> error + real list"
  generateContent :: "string \<Rightarrow> error + string option"
  buildPrompt :: "string \<Rightarrow> (string \<times> string) list \<Rightarrow> error + string"
  db :: Database
  cosine_distance :: "real list \<Rightarrow> real list \<Rightarrow> real"
  isProd :: bool
  JSON_parse_checker :: "string \<Rightarrow> DataCheckerResponse option"
  JSON_parse_final :: "string \<Rightarrow> FinalAnswerResponse option"
  JSON_parse_legacy :: "string \<Rightarrow> LegacyFinalAnswerResponse option"

text \<open>
  Every call that leaves the process is recorded, in order. A computation takes the
  trace so far and returns an error (a rejected promise) or a value, with the new trace.
\<close>

datatype event =
    EvEmbed string
  | EvColumnType
  | EvVectorSearch "real list" nat
  | EvFetchByIds "string list"
  | EvBuildPrompt string "(string \<times> string) list"
  | EvGemini string

type_synonym 'a io = "event list \<Rightarrow> (error + 'a) \<times> event list"

definition return_io :: "'a \<Rightarrow> 'a io" where
  "return_io x = (\<lambda>t. (Inr x, t))"

definition throw_io :: "error \<Rightarrow> 'a io" where
  "throw_io e = (\<lambda>t. (Inl e, t))"

definition bind_io :: "'a io \<Rightarrow> ('a \<Rightarrow> 'b io) \<Rightarrow> 'b io" where
  "bind_io m f = (\<lambda>t. case m t of (Inl e, t') \<Rightarrow> (Inl e, t') | (Inr x, t') \<Rightarrow> f x t')"

definition call_io :: "event \<Rightarrow> error + 'a \<Rightarrow> 'a io" where
  "call_io ev r = (\<lambda>t. (r, t @ [ev]))"

text \<open>\<^verbatim>\<open>db.execute\<close>: the query's rows, or the rejection.\<close>

definition db_execute :: "Env \<Rightarrow> event \<Rightarrow> 'a \<Rightarrow> 'a io" where
  "db_execute env ev rows = call_io ev (if db_available (db env) then Inr rows else Inl StoreError)"

text \<open>\<^verbatim>\<open>callGemini\<close> (gemini.service.ts): \<^verbatim>\<open>response.text ?? ""\<close>.\<close>

definition callGemini :: "Env \<Rightarrow> string \<Rightarrow> string io" where
  "callGemini env prompt =
     bind_io (call_io (EvGemini prompt) (generateContent env prompt))
       (\<lambda>text. return_io (case text of None \<Rightarrow> [] | Some s \<Rightarrow> s))"

definition buildPrompt_io :: "Env \<Rightarrow> string \<Rightarrow> (string \<times> string) list \<Rightarrow> string io" where
  "buildPrompt_io env promptName vars =
     call_io (EvBuildPrompt promptName vars) (buildPrompt env promptName vars)"

section \<open>Embedding service (embedding.service.ts)\<close>

text \<open>The two module-level variables, \<^verbatim>\<open>EFFECTIVE_DIM = 0\<close> and \<^verbatim>\<open>TRUNCATE_EMBEDDING = false\<close> at load.\<close>

record DimensionState =
  EFFECTIVE_DIM :: nat
  TRUNCATE_EMBEDDING :: bool

definition initial_dimensions :: DimensionState where
  "initial_dimensions = \<lparr>EFFECTIVE_DIM = 0, TRUNCATE_EMBEDDING = False\<rparr>"

text \<open>
  \<^verbatim>\<open>/vector\((\d+)\)/.exec(colType)\<close>: the first position where \<^verbatim>\<open>vector(\<close>, a longest
  run of one or more decimal digits and \<^verbatim>\<open>)\<close> follow one another; the result is the
  captured digits. \<^verbatim>\<open>parseInt(digits, 10)\<close> reads them as a natural number.
\<close>

definition is_digit :: "char \<Rightarrow> bool" where
  "is_digit c = (48 \<le> (of_char c :: nat) \<and> (of_char c :: nat) \<le> 57)"

definition digits_paren :: "string \<Rightarrow> string option" where
  "digits_paren s =
     (let ds = takeWhile is_digit s; rest = dropWhile is_digit s
      in if ds \<noteq> [] \<and> prefix '')'' rest then Some ds else None)"

fun dimMatch :: "string \<Rightarrow> string option" where
  "dimMatch [] = None"
| "dimMatch (c # cs) =
     (if prefix ''vector('' (c # cs)
      then (case digits_paren (drop 6 cs) of Some ds \<Rightarrow> Some ds | None \<Rightarrow> dimMatch cs)
      else dimMatch cs)"

definition parseInt10 :: "string \<Rightarrow> nat" where
  "parseInt10 ds = foldl (\<lambda>n c. 10 * n + (of_char c - 48)) 0 ds"

text \<open>
  \<^verbatim>\<open>detectDimensions\<close>. It returns the variables as it leaves them, or the error it
  throws (startup then stops, so the variables at a throw are not observed).
\<close>

definition detectDimensions :: "Env \<Rightarrow> DimensionState \<Rightarrow> DimensionState io" where
  "detectDimensions env st =
     bind_io (db_execute env EvColumnType (col_type (db env))) (\<lambda>row.
       let colType = (case row of None \<Rightarrow> [] | Some s \<Rightarrow> s)
       in case dimMatch colType of
            None \<Rightarrow> throw_io (CannotParseColumnType colType)
          | Some ds \<Rightarrow>
              let st1 = st\<lparr>EFFECTIVE_DIM := parseInt10 ds\<rparr>
              in bind_io (call_io (EvEmbed ''dimension probe'') (embedContent env ''dimension probe''))
                   (\<lambda>values.
                      let modelDim = length values
                      in if EFFECTIVE_DIM st1 = modelDim then return_io st1
                         else if isProd env
                           then throw_io (FatalProductionMismatch (EFFECTIVE_DIM st1) modelDim)
                         else if modelDim > EFFECTIVE_DIM st1
                           then return_io (st1\<lparr>TRUNCATE_EMBEDDING := True\<rparr>)
                         else throw_io (PaddingNotSafe (EFFECTIVE_DIM st1) modelDim)))"

text \<open>\<^verbatim>\<open>embedQuestion\<close>: \<^verbatim>\<open>vec.slice(0, EFFECTIVE_DIM)\<close> is \<open>take\<close>.\<close>

definition embedQuestion :: "Env \<Rightarrow> DimensionState \<Rightarrow> string \<Rightarrow> real list io" where
  "embedQuestion env st question =
     bind_io (call_io (EvEmbed question) (embedContent env question)) (\<lambda>vec.
       return_io (if TRUNCATE_EMBEDDING st \<and> length vec > EFFECTIVE_DIM st
                  then take (EFFECTIVE_DIM st) vec else vec))"

text \<open>
  \<^verbatim>\<open>retrieveChunks\<close>: \<^verbatim>\<open>ORDER BY embedding <=> v LIMIT topK\<close>, with
  \<^verbatim>\<open>1 - (embedding <=> v) AS similarity\<close>. Rows at equal distance are left in table order
  (the store defines their order; no property below depends on it).
\<close>

definition retrieveChunks :: "Env \<Rightarrow> real list \<Rightarrow> nat \<Rightarrow> Chunk list io" where
  "retrieveChunks env embedding topK =
     db_execute env (EvVectorSearch embedding topK)
       (map (\<lambda>r. \<lparr>chunk_id = row_chunk_id r, source_file = row_source_file r,
                   section_title = row_section_title r, chunk_text = row_text r,
                   similarity = 1 - cosine_distance env (row_embedding r) embedding\<rparr>)
          (take topK (sort_key (\<lambda>r. cosine_distance env (row_embedding r) embedding)
                        (document_chunks (db env)))))"

text \<open>
  \<^verbatim>\<open>fetchChunksByIds\<close>: no query for the empty list; otherwise
  \<^verbatim>\<open>SELECT ..., 0 AS similarity ... WHERE chunk_id = ANY(ARRAY[ids])\<close>, the rows in table
  order (the query has no \<^verbatim>\<open>ORDER BY\<close>).
\<close>

definition fetchChunksByIds :: "Env \<Rightarrow> string list \<Rightarrow> Chunk list io" where
  "fetchChunksByIds env ids =
     (if length ids = 0 then return_io []
      else db_execute env (EvFetchByIds ids)
             (map (\<lambda>r. \<lparr>chunk_id = row_chunk_id r, source_file = row_source_file r,
                         section_title = row_section_title r, chunk_text = row_text r,
                         similarity = 0\<rparr>)
                (filter (\<lambda>r. row_chunk_id r \<in> set ids) (document_chunks (db env)))))"

section \<open>The two generative stages (rag-pipeline.service.ts, config.ts)\<close>

definition prompt_dataChecker :: string where
  "prompt_dataChecker = ''data_checker:885899c9''"

definition prompt_respuestaFinal :: string where
  "prompt_respuestaFinal = ''respuesta_final:77fd31b5''"

definition clientName :: string where
  "clientName = ''Vicky''"

definition topK :: nat where
  "topK = 4"

definition idConstraint :: "Chunk list \<Rightarrow> string" where
  "idConstraint cs =
     ''RULE: You MUST only select IDs that appear exactly as DOCUMENT_ID in the documents below. Do NOT invent or modify any ID.''
     @ nl @ ''ALLOWED_IDS: '' @ join '', '' (map chunk_id cs) @ nl @ nl"

text \<open>
  The tail of \<^verbatim>\<open>runDataChecker\<close>, from the raw reply on: the \<^verbatim>\<open>null\<close> / empty test and
  the \<^verbatim>\<open>try\<close> / \<^verbatim>\<open>catch\<close> around \<^verbatim>\<open>parseJSON\<close>.
\<close>

definition dataChecker_outcome :: "Env \<Rightarrow> string \<Rightarrow> DataCheckerResponse option" where
  "dataChecker_outcome env raw =
     (let cleaned = trim (replace_fences (trim raw))
      in if cleaned = ''null'' \<or> cleaned = [] then None
         else (case parseJSON (JSON_parse_checker env) cleaned of
                 Some r \<Rightarrow> Some r
               | None \<Rightarrow> None))"

definition runDataChecker :: "Env \<Rightarrow> string \<Rightarrow> Chunk list \<Rightarrow> DataCheckerResponse option io" where
  "runDataChecker env question cs =
     bind_io (buildPrompt_io env prompt_dataChecker
                [(''question'', question),
                 (''retrieved_document'', idConstraint cs @ formatChunks cs)]) (\<lambda>filledPrompt.
     bind_io (callGemini env filledPrompt) (\<lambda>raw.
       return_io (dataChecker_outcome env raw)))"

text \<open>The tail of \<^verbatim>\<open>runRespuestaFinal\<close>, from the raw reply on.\<close>

definition respuestaFinal_outcome :: "Env \<Rightarrow> string \<Rightarrow> FinalAnswerResponse" where
  "respuestaFinal_outcome env raw =
     (case parseJSON (JSON_parse_final env) raw of
        Some r \<Rightarrow> r
      | None \<Rightarrow> \<lparr>logica = ''Respuesta generada directamente.'', docuementacion = [],
                  respuesta = trim raw, handoff = False\<rparr>)"

definition runRespuestaFinal :: "Env \<Rightarrow> string \<Rightarrow> Chunk list \<Rightarrow> FinalAnswerResponse io" where
  "runRespuestaFinal env question relevantChunks =
     bind_io (buildPrompt_io env prompt_respuestaFinal
                [(''question'', question),
                 (''retrieved_document'', formatChunks relevantChunks),
                 (''client_name'', clientName),
                 (''mensaje_original'', question),
                 (''contexto'', [])]) (\<lambda>filledPrompt.
     bind_io (callGemini env filledPrompt) (\<lambda>raw.
       return_io (respuestaFinal_outcome env raw)))"

section \<open>The controller (rag.controller.ts)\<close>

text \<open>
  The object \<^verbatim>\<open>executeRAGPipeline\<close> resolves to, without \<^verbatim>\<open>executionTime\<close> (a clock
  reading). The fields carry the prefix \<open>res_\<close>.
\<close>

record RAGResult =
  res_answer :: string
  res_logic :: string
  res_sources :: "SourceReference list"
  res_handoff :: bool

definition sourceReference :: "Chunk \<Rightarrow> SourceReference" where
  "sourceReference c =
     \<lparr>ref_chunk_id = chunk_id c, ref_section_title = section_title c,
      ref_source_file = source_file c\<rparr>"

text \<open>
  \<^verbatim>\<open>executeRAGPipeline\<close>. The \<^verbatim>\<open>catch\<close> block logs and rethrows, so an error of any
  stage is the error of the pipeline. Logging is not modelled.
\<close>

definition executeRAGPipeline :: "Env \<Rightarrow> DimensionState \<Rightarrow> string \<Rightarrow> RAGResult io" where
  "executeRAGPipeline env st question =
     bind_io (embedQuestion env st question) (\<lambda>embedding.
     bind_io (retrieveChunks env embedding topK) (\<lambda>cs.
     bind_io (runDataChecker env question cs) (\<lambda>checkerResult.
       let relevantChunks = chunks (validateAndGetRelevantChunks checkerResult cs)
       in bind_io (runRespuestaFinal env question relevantChunks) (\<lambda>finalAnswer.
            return_io \<lparr>res_answer = respuesta finalAnswer, res_logic = logica finalAnswer,
                       res_sources = map sourceReference relevantChunks,
                       res_handoff = handoff finalAnswer\<rparr>))))"

text \<open>
  The answer generator is invoked when \<^verbatim>\<open>runRespuestaFinal\<close> runs, and the first thing
  it does is to build a prompt of the \<^verbatim>\<open>respuesta_final\<close> family.
\<close>

definition is_generator_call :: "event \<Rightarrow> bool" where
  "is_generator_call ev =
     (case ev of EvBuildPrompt name vars \<Rightarrow> prefix ''respuesta_final'' name | _ \<Rightarrow> False)"

definition generator_calls :: "event list \<Rightarrow> nat" where
  "generator_calls t = length (filter is_generator_call t)"

section \<open>The single-file server (rag.ts, src/unnamed/part_004)\<close>

definition TOP_K :: nat where
  "TOP_K = 5"

definition NO_ANSWER_MESSAGE :: string where
  "NO_ANSWER_MESSAGE = ''Esta pregunta debe ser contestada por un humano.''"

definition PROMPT_RESPUESTA_FINAL :: string where
  "PROMPT_RESPUESTA_FINAL = ''respuesta_final:fca2401d''"

text \<open>
  Its \<^verbatim>\<open>embedQuestion\<close>, \<^verbatim>\<open>retrieveChunks\<close>, \<^verbatim>\<open>fetchChunksByIds\<close>, \<^verbatim>\<open>formatChunks\<close> and
  \<^verbatim>\<open>parseJSON\<close> are the ones above, line for line. Its \<^verbatim>\<open>runDataChecker\<close> sends the
  documents without the identifier rule, and its \<^verbatim>\<open>runRespuestaFinal\<close> has no
  \<^verbatim>\<open>handoff\<close> in the fallback object.
\<close>

definition legacy_runDataChecker ::
    "Env \<Rightarrow> string \<Rightarrow> Chunk list \<Rightarrow> DataCheckerResponse option io" where
  "legacy_runDataChecker env question cs =
     bind_io (buildPrompt_io env prompt_dataChecker
                [(''question'', question),
                 (''retrieved_document'', formatChunks cs)]) (\<lambda>filledPrompt.
     bind_io (callGemini env filledPrompt) (\<lambda>raw.
       return_io (dataChecker_outcome env raw)))"

definition legacy_runRespuestaFinal ::
    "Env \<Rightarrow> string \<Rightarrow> Chunk list \<Rightarrow> LegacyFinalAnswerResponse io" where
  "legacy_runRespuestaFinal env question relevantChunks =
     bind_io (buildPrompt_io env PROMPT_RESPUESTA_FINAL
                [(''question'', question),
                 (''retrieved_document'', formatChunks relevantChunks),
                 (''client_name'', clientName),
                 (''mensaje_original'', question),
                 (''contexto'', [])]) (\<lambda>filledPrompt.
     bind_io (callGemini env filledPrompt) (\<lambda>raw.
       return_io (case parseJSON (JSON_parse_legacy env) raw of
                    Some r \<Rightarrow> r
                  | None \<Rightarrow> \<lparr>legacy_logica = ''Respuesta generada directamente.'',
                              legacy_docuementacion = [],
                              legacy_respuesta = trim raw\<rparr>)))"

text \<open>
  The JSON bodies of \<^verbatim>\<open>POST /ask\<close>: the escalation body has no \<^verbatim>\<open>logic\<close> and no
  \<^verbatim>\<open>citation\<close>.
\<close>

record AskBody =
  ask_answer :: string
  ask_logic :: "string option"
  ask_citation :: "string option"
  ask_sources :: "SourceReference list"
  ask_escalated :: bool

datatype http_response =
    Json200 AskBody
  | Status400 string
  | Status500 error

definition escalation_body :: AskBody where
  "escalation_body =
     \<lparr>ask_answer = NO_ANSWER_MESSAGE, ask_logic = None, ask_citation = None,
      ask_sources = [], ask_escalated = True\<rparr>"

text \<open>The body of the \<^verbatim>\<open>try\<close> block of \<^verbatim>\<open>app.post("/ask")\<close>.\<close>

definition legacy_ask_pipeline :: "Env \<Rightarrow> DimensionState \<Rightarrow> string \<Rightarrow> AskBody io" where
  "legacy_ask_pipeline env st question =
     bind_io (embedQuestion env st question) (\<lambda>embedding.
     bind_io (retrieveChunks env embedding TOP_K) (\<lambda>cs.
     bind_io (legacy_runDataChecker env question cs) (\<lambda>checkerResult.
       if length (selected_documents checkerResult) = 0 then return_io escalation_body
       else
         let selectedIds = map doc_id (selected_documents checkerResult)
         in bind_io (fetchChunksByIds env selectedIds) (\<lambda>relevantChunks.
              if length relevantChunks = 0 then return_io escalation_body
              else bind_io (legacy_runRespuestaFinal env question relevantChunks) (\<lambda>finalAnswer.
                     return_io \<lparr>ask_answer = legacy_respuesta finalAnswer,
                                ask_logic = Some (legacy_logica finalAnswer),
                                ask_citation = Some (legacy_docuementacion finalAnswer),
                                ask_sources = map sourceReference relevantChunks,
                                ask_escalated = False\<rparr>)))))"

text \<open>
  \<^verbatim>\<open>app.post("/ask")\<close>: the request body's \<^verbatim>\<open>question\<close> may be missing; the
  \<^verbatim>\<open>catch\<close> block turns every error into a 500 response.
\<close>

definition legacy_ask :: "Env \<Rightarrow> DimensionState \<Rightarrow> string option \<Rightarrow> event list
    \<Rightarrow> http_response \<times> event list" where
  "legacy_ask env st question t =
     (case question of
        None \<Rightarrow> (Status400 ''Missing or empty 'question' in request body'', t)
      | Some q \<Rightarrow>
          if trim q = [] then (Status400 ''Missing or empty 'question' in request body'', t)
          else (case legacy_ask_pipeline env st q t of
                  (Inl e, t') \<Rightarrow> (Status500 e, t')
                | (Inr body, t') \<Rightarrow> (Json200 body, t')))"

section \<open>Concrete inputs\<close>

text \<open>
  Small inputs on which the theorems below are instantiated: chunks and table rows named
  by their identifier, and environments whose collaborators answer with fixed values.
\<close>

definition example_chunk :: "string \<Rightarrow> Chunk" where
  "example_chunk i =
     \<lparr>chunk_id = i, source_file = ''manual.md'', section_title = ''Devoluciones'',
      chunk_text = ''Treinta dias.'', similarity = 1\<rparr>"

definition example_row :: "string \<Rightarrow> DocumentChunkRow" where
  "example_row i =
     \<lparr>row_chunk_id = i, row_source_file = ''manual.md'', row_section_title = ''Devoluciones'',
      row_text = ''Treinta dias.'', row_embedding = []\<rparr>"

definition example_doc :: "string \<Rightarrow> RelevantDocument" where
  "example_doc i = \<lparr>doc_id = i, reason = ''relevant''\<rparr>"

text \<open>
  The table holds \<open>rows\<close>; the generation model always replies \<open>reply\<close>; the
  relevance filter's reply never parses; the final reply parses to \<open>final\<close>, if any.
\<close>

definition example_env :: "DocumentChunkRow list \<Rightarrow> string \<Rightarrow> FinalAnswerResponse option \<Rightarrow> Env" where
  "example_env rows reply final =
     \<lparr>embedContent = (\<lambda>q. Inr []),
      generateContent = (\<lambda>p. Inr (Some reply)),
      buildPrompt = (\<lambda>name vars. Inr name),
      db = \<lparr>db_available = True, col_type = None, document_chunks = rows\<rparr>,
      cosine_distance = (\<lambda>a b. 0),
      isProd = False,
      JSON_parse_checker = (\<lambda>s. None),
      JSON_parse_final = (\<lambda>s. final),
      JSON_parse_legacy = (\<lambda>s. None)\<rparr>"

text \<open>
  The embedding column has type \<open>colType\<close> and the model returns vectors of
  \<open>n\<close> components.
\<close>

definition example_dims_env :: "bool \<Rightarrow> string \<Rightarrow> nat \<Rightarrow> Env" where
  "example_dims_env production colType n =
     \<lparr>embedContent = (\<lambda>q. Inr (replicate n 0)),
      generateContent = (\<lambda>p. Inr None),
      buildPrompt = (\<lambda>name vars. Inr name),
      db = \<lparr>db_available = True, col_type = Some colType, document_chunks = []\<rparr>,
      cosine_distance = (\<lambda>a b. 0),
      isProd = production,
      JSON_parse_checker = (\<lambda>s. None),
      JSON_parse_final = (\<lambda>s. None),
      JSON_parse_legacy = (\<lambda>s. None)\<rparr>"

definition example_handoff_answer :: FinalAnswerResponse where
  "example_handoff_answer =
     \<lparr>logica = ''Fuera de alcance.'', docuementacion = [], respuesta = ''No lo se.'',
      handoff = True\<rparr>"

section \<open>Lemmas about the validation\<close>

lemma validated_chunk_ids_subset:
  "set (map chunk_id (chunks (validateAndGetRelevantChunks r cs))) \<subseteq> set (map chunk_id cs)"
  by (auto simp: validateAndGetRelevantChunks_def Let_def dest: in_set_takeD)

lemma set_map_filter_mem:
  "set (map f (filter (\<lambda>c. f c \<in> A) xs)) = A \<inter> f ` set xs"
  by (induction xs) auto

lemma validate_empty: "chunks (validateAndGetRelevantChunks r []) = []"
  by (simp add: validateAndGetRelevantChunks_def)

section \<open>Lemmas about the embedding service\<close>

lemma detectDimensions_result:
  assumes "db_available (db env)" and "col_type (db env) = Some colType"
    and "dimMatch colType = Some ds" and "parseInt10 ds = storedWidth"
    and "embedContent env ''dimension probe'' = Inr probe" and "length probe = modelWidth"
  shows "fst (detectDimensions env st t) =
     (if storedWidth = modelWidth then Inr (st\<lparr>EFFECTIVE_DIM := storedWidth\<rparr>)
      else if isProd env then Inl (FatalProductionMismatch storedWidth modelWidth)
      else if modelWidth > storedWidth
        then Inr (st\<lparr>EFFECTIVE_DIM := storedWidth, TRUNCATE_EMBEDDING := True\<rparr>)
      else Inl (PaddingNotSafe storedWidth modelWidth))"
  using assms
  by (simp add: detectDimensions_def bind_io_def db_execute_def call_io_def return_io_def
      throw_io_def Let_def)

lemma embedQuestion_result:
  "embedContent env q = Inr vec \<Longrightarrow>
   fst (embedQuestion env st q t) =
     Inr (if TRUNCATE_EMBEDDING st \<and> length vec > EFFECTIVE_DIM st
          then take (EFFECTIVE_DIM st) vec else vec)"
  by (simp add: embedQuestion_def bind_io_def call_io_def return_io_def)

lemma dimMatch_vector_768: "dimMatch ''vector(768)'' = Some ''768''"
  by (simp add: digits_paren_def is_digit_def)

lemma parseInt10_768: "parseInt10 ''768'' = 768"
  by (simp add: parseInt10_def)

lemma length_filter_mem_card:
  assumes "distinct (map f xs)"
  shows "length (filter (\<lambda>r. f r \<in> set ids) xs) = card (set ids \<inter> f ` set xs)"
proof -
  have "distinct (map f (filter (\<lambda>r. f r \<in> set ids) xs))"
    using assms by (simp add: distinct_map_filter)
  then have "length (map f (filter (\<lambda>r. f r \<in> set ids) xs))
      = card (set (map f (filter (\<lambda>r. f r \<in> set ids) xs)))"
    by (simp only: distinct_card)
  also have "set (map f (filter (\<lambda>r. f r \<in> set ids) xs)) = set ids \<inter> f ` set xs"
    by (rule set_map_filter_mem)
  finally show ?thesis by simp
qed

lemma fetch_result:
  "fst (fetchChunksByIds env ids t) = Inr cs \<Longrightarrow>
     cs = map (\<lambda>r. \<lparr>chunk_id = row_chunk_id r, source_file = row_source_file r,
                     section_title = row_section_title r, chunk_text = row_text r,
                     similarity = 0\<rparr>)
            (filter (\<lambda>r. row_chunk_id r \<in> set ids) (document_chunks (db env)))"
  by (auto simp: fetchChunksByIds_def return_io_def db_execute_def call_io_def split: if_splits)

section \<open>Lemmas about the effects\<close>

lemmas io_defs = bind_io_def call_io_def return_io_def throw_io_def db_execute_def
  buildPrompt_io_def callGemini_def

lemma gen_call_simps:
  "is_generator_call (EvEmbed q) = False"
  "is_generator_call EvColumnType = False"
  "is_generator_call (EvVectorSearch e k) = False"
  "is_generator_call (EvFetchByIds ids) = False"
  "is_generator_call (EvGemini p) = False"
  "is_generator_call (EvBuildPrompt prompt_dataChecker vars) = False"
  "is_generator_call (EvBuildPrompt prompt_respuestaFinal vars) = True"
  "is_generator_call (EvBuildPrompt PROMPT_RESPUESTA_FINAL vars) = True"
  by (simp_all add: is_generator_call_def prompt_dataChecker_def prompt_respuestaFinal_def
      PROMPT_RESPUESTA_FINAL_def)

lemma generator_calls_append:
  "generator_calls (t @ u) = generator_calls t + generator_calls u"
  by (simp add: generator_calls_def)

lemma generator_calls_list:
  "generator_calls [] = 0"
  "generator_calls (ev # t) = (if is_generator_call ev then 1 else 0) + generator_calls t"
  by (simp_all add: generator_calls_def)

lemma callGemini_result:
  "generateContent env p = Inr r \<Longrightarrow>
   callGemini env p t = (Inr (case r of None \<Rightarrow> [] | Some s \<Rightarrow> s), t @ [EvGemini p])"
  by (simp add: callGemini_def bind_io_def call_io_def return_io_def)

lemma runDataChecker_result:
  assumes "buildPrompt env prompt_dataChecker
             [(''question'', question), (''retrieved_document'', idConstraint cs @ formatChunks cs)] = Inr p"
    and "generateContent env p = Inr r"
  shows "fst (runDataChecker env question cs t)
           = Inr (dataChecker_outcome env (case r of None \<Rightarrow> [] | Some s \<Rightarrow> s))"
  using assms
  by (simp add: runDataChecker_def bind_io_def buildPrompt_io_def call_io_def return_io_def
      callGemini_result)

lemma runRespuestaFinal_result:
  assumes "buildPrompt env prompt_respuestaFinal
             [(''question'', question), (''retrieved_document'', formatChunks cs),
              (''client_name'', clientName), (''mensaje_original'', question), (''contexto'', [])] = Inr p"
    and "generateContent env p = Inr r"
  shows "fst (runRespuestaFinal env question cs t)
           = Inr (respuestaFinal_outcome env (case r of None \<Rightarrow> [] | Some s \<Rightarrow> s))"
  using assms
  by (simp add: runRespuestaFinal_def bind_io_def buildPrompt_io_def call_io_def return_io_def
      callGemini_result)

lemma dataChecker_outcome_null:
  "trim (replace_fences (trim raw)) = ''null'' \<or> trim (replace_fences (trim raw)) = []
   \<or> parseJSON (JSON_parse_checker env) (trim (replace_fences (trim raw))) = None
   \<Longrightarrow> dataChecker_outcome env raw = None"
  by (auto simp: dataChecker_outcome_def Let_def split: option.splits)

lemma respuestaFinal_outcome_raw:
  "parseJSON (JSON_parse_final env) raw = None \<Longrightarrow>
   respuestaFinal_outcome env raw =
     \<lparr>logica = ''Respuesta generada directamente.'', docuementacion = [],
      respuesta = trim raw, handoff = False\<rparr>"
  by (simp add: respuestaFinal_outcome_def)

text \<open>The value a stage returns does not depend on the trace it starts from.\<close>

lemma embedQuestion_value:
  "fst (embedQuestion env st q t) = fst (embedQuestion env st q [])"
  by (simp add: embedQuestion_def io_defs split: sum.splits prod.splits)

lemma retrieveChunks_value:
  "fst (retrieveChunks env e k t) = fst (retrieveChunks env e k [])"
  by (simp add: retrieveChunks_def io_defs)

lemma runDataChecker_value:
  "fst (runDataChecker env q cs t) = fst (runDataChecker env q cs [])"
  by (simp add: runDataChecker_def io_defs split: sum.splits prod.splits)

lemma runRespuestaFinal_value:
  "fst (runRespuestaFinal env q cs t) = fst (runRespuestaFinal env q cs [])"
  by (simp add: runRespuestaFinal_def io_defs split: sum.splits prod.splits)

text \<open>Which stages add a call of the answer generator to the trace.\<close>

lemma embedQuestion_trace:
  "embedQuestion env st q t = (r, t') \<Longrightarrow> generator_calls t' = generator_calls t"
  by (auto simp: embedQuestion_def io_defs generator_calls_append generator_calls_list
      gen_call_simps split: sum.splits prod.splits)

lemma retrieveChunks_trace:
  "retrieveChunks env e k t = (r, t') \<Longrightarrow> generator_calls t' = generator_calls t"
  by (auto simp: retrieveChunks_def io_defs generator_calls_append generator_calls_list
      gen_call_simps)

lemma runDataChecker_trace:
  "runDataChecker env q cs t = (r, t') \<Longrightarrow> generator_calls t' = generator_calls t"
  by (auto simp: runDataChecker_def io_defs generator_calls_append generator_calls_list
      gen_call_simps split: sum.splits prod.splits)

lemma legacy_runDataChecker_trace:
  "legacy_runDataChecker env q cs t = (r, t') \<Longrightarrow> generator_calls t' = generator_calls t"
  by (auto simp: legacy_runDataChecker_def io_defs generator_calls_append generator_calls_list
      gen_call_simps split: sum.splits prod.splits)

lemma runRespuestaFinal_trace:
  "runRespuestaFinal env q cs t = (r, t') \<Longrightarrow> generator_calls t' = generator_calls t + 1"
  by (auto simp: runRespuestaFinal_def io_defs generator_calls_append generator_calls_list
      gen_call_simps split: sum.splits prod.splits)

text \<open>Retrieval returns no candidate exactly when the table is empty (or nothing is asked for).\<close>

lemma retrieveChunks_zero_iff:
  "fst (retrieveChunks env e k t) = Inr [] \<longleftrightarrow>
     db_available (db env) \<and> (k = 0 \<or> document_chunks (db env) = [])"
proof -
  have "sort_key f xs = [] \<longleftrightarrow> xs = []" for f :: "DocumentChunkRow \<Rightarrow> real" and xs
    using length_sort [of f xs] by (metis length_0_conv)
  then show ?thesis
    by (auto simp: retrieveChunks_def io_defs)
qed

lemma retrieveChunks_empty_table:
  "document_chunks (db env) = [] \<Longrightarrow>
   retrieveChunks env e k t =
     (if db_available (db env) then Inr [] else Inl StoreError, t @ [EvVectorSearch e k])"
  by (simp add: retrieveChunks_def io_defs)

lemma fetchChunksByIds_empty_table:
  "document_chunks (db env) = [] \<Longrightarrow>
   fetchChunksByIds env ids u =
      (if ids = [] then (Inr [], u)
       else (if db_available (db env) then Inr [] else Inl StoreError, u @ [EvFetchByIds ids]))"
  by (simp add: fetchChunksByIds_def io_defs)

text \<open>A successful run of the controller, stage by stage.\<close>

lemma executeRAGPipeline_success:
  assumes "fst (executeRAGPipeline env st q t) = Inr r"
  shows "\<exists>embedding t1 cs t2 checkerResult t3 finalAnswer t4.
           embedQuestion env st q t = (Inr embedding, t1)
         \<and> retrieveChunks env embedding topK t1 = (Inr cs, t2)
         \<and> runDataChecker env q cs t2 = (Inr checkerResult, t3)
         \<and> runRespuestaFinal env q (chunks (validateAndGetRelevantChunks checkerResult cs)) t3
             = (Inr finalAnswer, t4)
         \<and> snd (executeRAGPipeline env st q t) = t4
         \<and> r = \<lparr>res_answer = respuesta finalAnswer, res_logic = logica finalAnswer,
                 res_sources = map sourceReference (chunks (validateAndGetRelevantChunks checkerResult cs)),
                 res_handoff = handoff finalAnswer\<rparr>"
  using assms
  unfolding executeRAGPipeline_def bind_io_def return_io_def Let_def
  by (auto split: prod.splits sum.splits)

lemma legacy_ask_pipeline_empty_table:
  assumes "document_chunks (db env) = []"
  shows "generator_calls (snd (legacy_ask_pipeline env st q t)) = generator_calls t
       \<and> (\<forall>body. fst (legacy_ask_pipeline env st q t) = Inr body \<longrightarrow> body = escalation_body)"
  unfolding legacy_ask_pipeline_def bind_io_def Let_def
  by (auto split: prod.splits sum.splits
      simp: retrieveChunks_empty_table [OF assms] fetchChunksByIds_empty_table [OF assms]
        return_io_def generator_calls_append generator_calls_list gen_call_simps
      dest!: embedQuestion_trace legacy_runDataChecker_trace)

lemma legacy_ask_empty_table:
  assumes "document_chunks (db env) = []"
  shows "generator_calls (snd (legacy_ask env st question t)) = generator_calls t
       \<and> (\<forall>body. fst (legacy_ask env st question t) = Json200 body \<longrightarrow> body = escalation_body)"
proof (cases question)
  case None
  then show ?thesis by (simp add: legacy_ask_def)
next
  case (Some q)
  obtain r t' where p: "legacy_ask_pipeline env st q t = (r, t')"
    by (cases "legacy_ask_pipeline env st q t")
  from legacy_ask_pipeline_empty_table [OF assms, of st q t] p
  have "generator_calls t' = generator_calls t" and "\<forall>body. r = Inr body \<longrightarrow> body = escalation_body"
    by simp_all
  then show ?thesis
    using Some p by (auto simp: legacy_ask_def split: sum.splits)
qed

lemma legacy_ask_escalated:
  assumes "fst (legacy_ask env st question t) = Json200 body" and "ask_escalated body"
  shows "body = escalation_body"
  using assms
  unfolding legacy_ask_def legacy_ask_pipeline_def bind_io_def Let_def return_io_def
  by (auto split: option.splits prod.splits sum.splits if_splits)

text \<open>Unfolding a run of the controller on a concrete environment.\<close>

lemmas run_defs = executeRAGPipeline_def example_env_def initial_dimensions_def embedQuestion_def
      retrieveChunks_def runDataChecker_def runRespuestaFinal_def io_defs topK_def
      dataChecker_outcome_def parseJSON_def respuestaFinal_outcome_def Let_def
      validateAndGetRelevantChunks_def selected_documents_def

lemma example_handoff_run:
  "fst (executeRAGPipeline (example_env [example_row ''c1''] ''{}'' (Some example_handoff_answer))
          initial_dimensions ''q'' [])
     = Inr \<lparr>res_answer = ''No lo se.'', res_logic = ''Fuera de alcance.'',
            res_sources = [\<lparr>ref_chunk_id = ''c1'', ref_section_title = ''Devoluciones'',
                            ref_source_file = ''manual.md''\<rparr>],
            res_handoff = True\<rparr>"
  by (simp add: run_defs trim_def is_js_space_def example_row_def example_handoff_answer_def
      sourceReference_def)

lemma example_legacy_escalation:
  "fst (legacy_ask (example_env [] ''{}'' None) initial_dimensions (Some ''q'') [])
     = Json200 escalation_body
   \<and> ask_escalated escalation_body"
  by (simp add: legacy_ask_def legacy_ask_pipeline_def legacy_runDataChecker_def run_defs
      trim_def is_js_space_def escalation_body_def)

section \<open>The hallucination guard\<close>

text \<open>
  C3. For a non-empty original list, when the decision is null, or is the outcome of the
  relevance filter on a reply that does not parse, or selects no identifier that occurs
  among the original chunks, validation returns the first two original chunks, flagged as
  a fallback; and every identifier it returns (the list the controller hands to the answer
  generator) is one of the original ones.
\<close>

theorem validate_fallback_top2:
  assumes "originalChunks \<noteq> []"
    and "checkerResult = None
         \<or> (\<exists>env raw. checkerResult = dataChecker_outcome env raw
                \<and> parseJSON (JSON_parse_checker env) (trim (replace_fences (trim raw))) = None)
         \<or> (\<forall>d \<in> set (selected_documents checkerResult). doc_id d \<notin> chunk_id ` set originalChunks)"
  shows "chunks (validateAndGetRelevantChunks checkerResult originalChunks) = take 2 originalChunks
       \<and> hadFallback (validateAndGetRelevantChunks checkerResult originalChunks) = True
       \<and> set (map chunk_id (chunks (validateAndGetRelevantChunks checkerResult originalChunks)))
            \<subseteq> set (map chunk_id originalChunks)"
proof -
  have "checkerResult = None
      \<or> (\<forall>d \<in> set (selected_documents checkerResult). doc_id d \<notin> chunk_id ` set originalChunks)"
    using assms(2) by (auto simp: dataChecker_outcome_def Let_def split: if_splits option.splits)
  then have "filter (\<lambda>d. doc_id d \<in> set (map chunk_id originalChunks)) (selected_documents checkerResult) = []"
    by (auto simp: filter_empty_conv selected_documents_def)
  then show ?thesis
    by (auto simp: validateAndGetRelevantChunks_def Let_def dest: in_set_takeD)
qed

theorem validate_fallback_top2_witness:
  "chunks (validateAndGetRelevantChunks
             (Some \<lparr>relevant_documents = Some [example_doc ''zz'']\<rparr>)
             [example_chunk ''c1'', example_chunk ''c2'', example_chunk ''c3''])
     = [example_chunk ''c1'', example_chunk ''c2'']
   \<and> hadFallback (validateAndGetRelevantChunks
             (Some \<lparr>relevant_documents = Some [example_doc ''zz'']\<rparr>)
             [example_chunk ''c1'', example_chunk ''c2'', example_chunk ''c3'']) = True"
proof -
  have h1: "[example_chunk ''c1'', example_chunk ''c2'', example_chunk ''c3''] \<noteq> []"
    by simp
  have h2: "Some \<lparr>relevant_documents = Some [example_doc ''zz'']\<rparr> = None
      \<or> (\<exists>env raw. Some \<lparr>relevant_documents = Some [example_doc ''zz'']\<rparr> = dataChecker_outcome env raw
             \<and> parseJSON (JSON_parse_checker env) (trim (replace_fences (trim raw))) = None)
      \<or> (\<forall>d \<in> set (selected_documents (Some \<lparr>relevant_documents = Some [example_doc ''zz'']\<rparr>)).
            doc_id d \<notin> chunk_id ` set [example_chunk ''c1'', example_chunk ''c2'', example_chunk ''c3''])"
    by (simp add: selected_documents_def example_doc_def example_chunk_def)
  show ?thesis
    using validate_fallback_top2 [OF h1 h2] by simp
qed

text \<open>
  C4. When at least one selected identifier occurs among the original chunks, validation
  returns the original chunks whose identifier was selected: a subsequence of the original
  list (so in retrieval order, no position twice, and with distinct identifiers when the
  original ones are distinct), not flagged as a fallback; the identifiers returned are all
  the selected identifiers that occur in the original list, however many they are.
\<close>

theorem validate_selected_subsequence:
  assumes "\<exists>d \<in> set (selected_documents checkerResult). doc_id d \<in> chunk_id ` set originalChunks"
  shows "chunks (validateAndGetRelevantChunks checkerResult originalChunks)
           = filter (\<lambda>c. chunk_id c \<in> doc_id ` set (selected_documents checkerResult)) originalChunks
       \<and> subseq (chunks (validateAndGetRelevantChunks checkerResult originalChunks)) originalChunks
       \<and> hadFallback (validateAndGetRelevantChunks checkerResult originalChunks) = False
       \<and> set (map chunk_id (chunks (validateAndGetRelevantChunks checkerResult originalChunks)))
            = doc_id ` set (selected_documents checkerResult) \<inter> chunk_id ` set originalChunks
       \<and> (distinct (map chunk_id originalChunks)
            \<longrightarrow> distinct (map chunk_id (chunks (validateAndGetRelevantChunks checkerResult originalChunks))))"
proof -
  let ?ds = "selected_documents checkerResult"
  let ?vd = "filter (\<lambda>d. doc_id d \<in> set (map chunk_id originalChunks)) ?ds"
  have ne: "?vd \<noteq> []"
    using assms by (auto simp: filter_empty_conv)
  have F: "filter (\<lambda>c. list_ex (\<lambda>d. doc_id d = chunk_id c) ?vd) originalChunks
           = filter (\<lambda>c. chunk_id c \<in> doc_id ` set ?ds) originalChunks"
    by (rule filter_cong, simp, force simp: list_ex_iff image_iff)
  have eq: "chunks (validateAndGetRelevantChunks checkerResult originalChunks)
           = filter (\<lambda>c. chunk_id c \<in> doc_id ` set ?ds) originalChunks"
    using ne F by (simp add: validateAndGetRelevantChunks_def Let_def del: set_map)
  have fb: "hadFallback (validateAndGetRelevantChunks checkerResult originalChunks) = False"
    using ne by (simp add: validateAndGetRelevantChunks_def Let_def)
  have ids: "set (map chunk_id (filter (\<lambda>c. chunk_id c \<in> doc_id ` set ?ds) originalChunks))
           = doc_id ` set ?ds \<inter> chunk_id ` set originalChunks"
    by (rule set_map_filter_mem)
  have sub: "subseq (filter (\<lambda>c. chunk_id c \<in> doc_id ` set ?ds) originalChunks) originalChunks"
    by simp
  have dist: "distinct (map chunk_id originalChunks) \<longrightarrow>
      distinct (map chunk_id (filter (\<lambda>c. chunk_id c \<in> doc_id ` set ?ds) originalChunks))"
    by (simp add: distinct_map_filter)
  show ?thesis
    unfolding eq using fb ids sub dist by blast
qed

text \<open>
  On three original chunks and a decision that selects all three (in another order) and a
  foreign identifier, all three come back, in retrieval order: more than two.
\<close>

theorem validate_selected_subsequence_witness:
  "chunks (validateAndGetRelevantChunks
             (Some \<lparr>relevant_documents =
                Some [example_doc ''c3'', example_doc ''zz'', example_doc ''c1'', example_doc ''c2'']\<rparr>)
             [example_chunk ''c1'', example_chunk ''c2'', example_chunk ''c3''])
     = [example_chunk ''c1'', example_chunk ''c2'', example_chunk ''c3'']
   \<and> hadFallback (validateAndGetRelevantChunks
             (Some \<lparr>relevant_documents =
                Some [example_doc ''c3'', example_doc ''zz'', example_doc ''c1'', example_doc ''c2'']\<rparr>)
             [example_chunk ''c1'', example_chunk ''c2'', example_chunk ''c3'']) = False"
proof -
  have h: "\<exists>d \<in> set (selected_documents (Some \<lparr>relevant_documents =
                Some [example_doc ''c3'', example_doc ''zz'', example_doc ''c1'', example_doc ''c2'']\<rparr>)).
             doc_id d \<in> chunk_id ` set [example_chunk ''c1'', example_chunk ''c2'', example_chunk ''c3'']"
    by (simp add: selected_documents_def example_doc_def example_chunk_def)
  show ?thesis
    using validate_selected_subsequence [OF h]
    by (simp add: selected_documents_def example_doc_def example_chunk_def)
qed

text \<open>
  C5, as amended. With no original chunk no selected identifier can be valid, so the
  \<^verbatim>\<open>else\<close> branch runs: the selection is \<^verbatim>\<open>[].slice(0, 2)\<close>, the empty list, and the
  result is flagged \<^verbatim>\<open>hadFallback: true\<close>, \<^verbatim>\<open>hadValidation: false\<close>, whatever the decision was.
\<close>

theorem validate_empty_original:
  "validateAndGetRelevantChunks checkerResult [] =
     \<lparr>chunks = [], hadValidation = False, hadFallback = True\<rparr>"
  by (simp add: validateAndGetRelevantChunks_def)

theorem validate_empty_original_witness:
  "validateAndGetRelevantChunks (Some \<lparr>relevant_documents = Some [example_doc ''c1'']\<rparr>) [] =
     \<lparr>chunks = [], hadValidation = False, hadFallback = True\<rparr>"
  using validate_empty_original [of "Some \<lparr>relevant_documents = Some [example_doc ''c1'']\<rparr>"]
  by simp

text \<open>
  C5, as stated, fails: on the empty original list and the null decision the result
  reports a fallback.
\<close>

theorem validate_empty_original_counterexample:
  "\<not> (chunks (validateAndGetRelevantChunks None []) = []
       \<and> hadFallback (validateAndGetRelevantChunks None []) = False)"
  by (simp add: validateAndGetRelevantChunks_def selected_documents_def)

section \<open>The dimension guard\<close>

text \<open>
  C6. Let the catalogue query succeed and the column type read \<^verbatim>\<open>vector(storedWidth)\<close>,
  and let the probe return a vector of \<open>modelWidth\<close> components. From the initial
  variables: if the widths are equal, startup goes on with truncation off, and
  \<^verbatim>\<open>embedQuestion\<close> then returns the model's vector as it is; if the stored width is
  smaller and the environment is production, startup aborts with an error; if the stored
  width is larger, startup aborts with an error in production and outside it.
\<close>

theorem dimension_guard_decision:
  assumes "db_available (db env)" and "col_type (db env) = Some colType"
    and "dimMatch colType = Some ds" and "parseInt10 ds = storedWidth"
    and "embedContent env ''dimension probe'' = Inr probe" and "length probe = modelWidth"
  shows "(storedWidth = modelWidth \<longrightarrow>
            fst (detectDimensions env initial_dimensions t)
              = Inr \<lparr>EFFECTIVE_DIM = storedWidth, TRUNCATE_EMBEDDING = False\<rparr>
          \<and> (\<forall>q vec t'. embedContent env q = Inr vec \<longrightarrow>
                fst (embedQuestion env \<lparr>EFFECTIVE_DIM = storedWidth, TRUNCATE_EMBEDDING = False\<rparr> q t')
                  = Inr vec))
       \<and> (storedWidth < modelWidth \<and> isProd env \<longrightarrow>
            fst (detectDimensions env initial_dimensions t)
              = Inl (FatalProductionMismatch storedWidth modelWidth))
       \<and> (storedWidth > modelWidth \<longrightarrow>
            fst (detectDimensions env initial_dimensions t)
              = Inl (if isProd env then FatalProductionMismatch storedWidth modelWidth
                     else PaddingNotSafe storedWidth modelWidth))"
  using detectDimensions_result [OF assms, of initial_dimensions t]
  by (auto simp: initial_dimensions_def embedQuestion_result)

text \<open>
  The three cases at a column \<^verbatim>\<open>vector(768)\<close>: a model of 768 components; a model of
  3072 components in production; a model of 512 components outside production.
\<close>

theorem dimension_guard_decision_witness:
  "fst (detectDimensions (example_dims_env False ''vector(768)'' 768) initial_dimensions [])
     = Inr \<lparr>EFFECTIVE_DIM = 768, TRUNCATE_EMBEDDING = False\<rparr>
   \<and> fst (embedQuestion (example_dims_env False ''vector(768)'' 768)
            \<lparr>EFFECTIVE_DIM = 768, TRUNCATE_EMBEDDING = False\<rparr> ''q'' [])
     = Inr (replicate 768 0)
   \<and> fst (detectDimensions (example_dims_env True ''vector(768)'' 3072) initial_dimensions [])
     = Inl (FatalProductionMismatch 768 3072)
   \<and> fst (detectDimensions (example_dims_env False ''vector(768)'' 512) initial_dimensions [])
     = Inl (PaddingNotSafe 768 512)"
proof -
  have a: "db_available (db (example_dims_env p ''vector(768)'' n))"
    and b: "col_type (db (example_dims_env p ''vector(768)'' n)) = Some ''vector(768)''"
    and c: "embedContent (example_dims_env p ''vector(768)'' n) ''dimension probe'' = Inr (replicate n 0)"
    and d: "length (replicate n (0::real)) = n"
    and e: "embedContent (example_dims_env p ''vector(768)'' n) ''q'' = Inr (replicate n 0)"
    and f: "isProd (example_dims_env p ''vector(768)'' n) = p"
    for p n
    by (simp_all add: example_dims_env_def)
  note g1 = dimension_guard_decision [OF a [where p = False and n = 768] b [where p = False and n = 768]
      dimMatch_vector_768 parseInt10_768 c [where p = False and n = 768] d [where n = 768], of "[]"]
  note g2 = dimension_guard_decision [OF a [where p = True and n = 3072] b [where p = True and n = 3072]
      dimMatch_vector_768 parseInt10_768 c [where p = True and n = 3072] d [where n = 3072], of "[]"]
  note g3 = dimension_guard_decision [OF a [where p = False and n = 512] b [where p = False and n = 512]
      dimMatch_vector_768 parseInt10_768 c [where p = False and n = 512] d [where n = 512], of "[]"]
  have "fst (detectDimensions (example_dims_env False ''vector(768)'' 768) initial_dimensions [])
     = Inr \<lparr>EFFECTIVE_DIM = 768, TRUNCATE_EMBEDDING = False\<rparr>
   \<and> fst (embedQuestion (example_dims_env False ''vector(768)'' 768)
            \<lparr>EFFECTIVE_DIM = 768, TRUNCATE_EMBEDDING = False\<rparr> ''q'' [])
     = Inr (replicate 768 0)"
    using g1 e [where p = False and n = 768] by simp
  moreover have "fst (detectDimensions (example_dims_env True ''vector(768)'' 3072) initial_dimensions [])
     = Inl (FatalProductionMismatch 768 3072)"
    using g2 f [where p = True and n = 3072] by simp
  moreover have "fst (detectDimensions (example_dims_env False ''vector(768)'' 512) initial_dimensions [])
     = Inl (PaddingNotSafe 768 512)"
    using g3 f [where p = False and n = 512] by simp
  ultimately show ?thesis by simp
qed

text \<open>
  C7. Under the same reading of the two widths, a stored width below the model width
  outside production leaves startup with \<^verbatim>\<open>TRUNCATE_EMBEDDING\<close> set. From then on
  \<^verbatim>\<open>embedQuestion\<close> returns the first \<open>storedWidth\<close> components of what the model
  returns, and that vector has exactly \<open>storedWidth\<close> components when the model returns
  vectors of its width \<open>modelWidth\<close>.
\<close>

theorem truncate_mode_embedding:
  assumes "db_available (db env)" and "col_type (db env) = Some colType"
    and "dimMatch colType = Some ds" and "parseInt10 ds = storedWidth"
    and "embedContent env ''dimension probe'' = Inr probe" and "length probe = modelWidth"
    and "storedWidth < modelWidth" and "\<not> isProd env"
  shows "fst (detectDimensions env initial_dimensions t)
              = Inr \<lparr>EFFECTIVE_DIM = storedWidth, TRUNCATE_EMBEDDING = True\<rparr>
       \<and> (\<forall>q vec t'. embedContent env q = Inr vec \<longrightarrow>
             fst (embedQuestion env \<lparr>EFFECTIVE_DIM = storedWidth, TRUNCATE_EMBEDDING = True\<rparr> q t')
               = Inr (take storedWidth vec)
             \<and> (length vec = modelWidth \<longrightarrow> length (take storedWidth vec) = storedWidth))"
  using detectDimensions_result [OF assms(1-6), of initial_dimensions t] assms(7,8)
  by (auto simp: initial_dimensions_def embedQuestion_result)

theorem truncate_mode_embedding_witness:
  "fst (detectDimensions (example_dims_env False ''vector(768)'' 3072) initial_dimensions [])
     = Inr \<lparr>EFFECTIVE_DIM = 768, TRUNCATE_EMBEDDING = True\<rparr>
   \<and> fst (embedQuestion (example_dims_env False ''vector(768)'' 3072)
            \<lparr>EFFECTIVE_DIM = 768, TRUNCATE_EMBEDDING = True\<rparr> ''q'' [])
     = Inr (take 768 (replicate 3072 0))
   \<and> length (take 768 (replicate 3072 (0::real))) = 768"
proof -
  have a: "db_available (db (example_dims_env False ''vector(768)'' 3072))"
    and b: "col_type (db (example_dims_env False ''vector(768)'' 3072)) = Some ''vector(768)''"
    and c: "embedContent (example_dims_env False ''vector(768)'' 3072) ''dimension probe''
              = Inr (replicate 3072 0)"
    and d: "length (replicate 3072 (0::real)) = 3072"
    and e: "embedContent (example_dims_env False ''vector(768)'' 3072) ''q'' = Inr (replicate 3072 0)"
    and f: "\<not> isProd (example_dims_env False ''vector(768)'' 3072)"
    and g: "(768::nat) < 3072"
    by (simp_all add: example_dims_env_def)
  show ?thesis
    using truncate_mode_embedding [OF a b dimMatch_vector_768 parseInt10_768 c d g f, of "[]"] e
    by simp
qed

section \<open>Fetching chunks by identifier\<close>

text \<open>
  C9. The empty identifier list yields the empty result, without a query. When the
  database answers, the fetch returns, for any identifier list, chunks whose identifier
  was requested: the identifiers returned are the requested ones that occur in the table,
  so a requested identifier with no row is simply missing from the result. With
  \<^verbatim>\<open>chunk_id\<close> a key of the table, the result has at most as many rows as identifiers
  were requested, and fewer when the requested identifiers are distinct and one has no row.
\<close>

theorem fetch_by_ids_only_requested:
  "fetchChunksByIds env [] t = (Inr [], t)
   \<and> (db_available (db env) \<longrightarrow>
        (\<exists>cs. fst (fetchChunksByIds env ids t) = Inr cs
            \<and> (\<forall>c \<in> set cs. chunk_id c \<in> set ids)
            \<and> set (map chunk_id cs) = set ids \<inter> row_chunk_id ` set (document_chunks (db env))
            \<and> (distinct (map row_chunk_id (document_chunks (db env))) \<longrightarrow>
                  length cs = card (set ids \<inter> row_chunk_id ` set (document_chunks (db env)))
                \<and> length cs \<le> length ids
                \<and> (distinct ids \<and> (\<exists>i \<in> set ids. i \<notin> row_chunk_id ` set (document_chunks (db env)))
                      \<longrightarrow> length cs < length ids))))"
proof (intro conjI impI)
  show "fetchChunksByIds env [] t = (Inr [], t)"
    by (simp add: fetchChunksByIds_def return_io_def)
next
  assume av: "db_available (db env)"
  let ?rows = "document_chunks (db env)"
  let ?cs = "map (\<lambda>r. \<lparr>chunk_id = row_chunk_id r, source_file = row_source_file r,
                     section_title = row_section_title r, chunk_text = row_text r,
                     similarity = 0\<rparr>)
            (filter (\<lambda>r. row_chunk_id r \<in> set ids) ?rows)"
  have r: "fst (fetchChunksByIds env ids t) = Inr ?cs"
    using av by (cases ids) (simp_all add: fetchChunksByIds_def return_io_def db_execute_def call_io_def)
  have mem: "\<forall>c \<in> set ?cs. chunk_id c \<in> set ids" by auto
  have ids: "set (map chunk_id ?cs) = set ids \<inter> row_chunk_id ` set ?rows"
    by (induction ?rows) auto
  have len: "distinct (map row_chunk_id ?rows) \<Longrightarrow> length ?cs = card (set ids \<inter> row_chunk_id ` set ?rows)"
    using length_filter_mem_card [of row_chunk_id ?rows ids] by simp
  have le: "card (set ids \<inter> row_chunk_id ` set ?rows) \<le> length ids"
    by (meson List.finite_set card_length card_mono inf_le1 le_trans)
  have lt: "card (set ids \<inter> row_chunk_id ` set ?rows) < length ids"
    if d: "distinct ids" and m: "\<exists>i \<in> set ids. i \<notin> row_chunk_id ` set ?rows"
  proof -
    from m have "set ids \<inter> row_chunk_id ` set ?rows \<subset> set ids" by blast
    then have "card (set ids \<inter> row_chunk_id ` set ?rows) < card (set ids)"
      by (simp add: psubset_card_mono)
    then show ?thesis using d by (simp add: distinct_card)
  qed
  show "\<exists>cs. fst (fetchChunksByIds env ids t) = Inr cs
            \<and> (\<forall>c \<in> set cs. chunk_id c \<in> set ids)
            \<and> set (map chunk_id cs) = set ids \<inter> row_chunk_id ` set (document_chunks (db env))
            \<and> (distinct (map row_chunk_id (document_chunks (db env))) \<longrightarrow>
                  length cs = card (set ids \<inter> row_chunk_id ` set (document_chunks (db env)))
                \<and> length cs \<le> length ids
                \<and> (distinct ids \<and> (\<exists>i \<in> set ids. i \<notin> row_chunk_id ` set (document_chunks (db env)))
                      \<longrightarrow> length cs < length ids))"
    using r mem ids len le lt by (intro exI [of _ ?cs]) (simp only: , force)
qed

text \<open>
  A table of two rows, asked for one of them and for an identifier it does not hold:
  one row comes back, and it is not an error.
\<close>

theorem fetch_by_ids_only_requested_witness:
  "\<exists>cs. fst (fetchChunksByIds (example_env [example_row ''c1'', example_row ''c2''] [] None)
               [''c2'', ''zz''] []) = Inr cs
      \<and> set (map chunk_id cs) = {''c2''}
      \<and> length cs < length [''c2'', ''zz'']"
proof -
  let ?env = "example_env [example_row ''c1'', example_row ''c2''] [] None"
  have a: "db_available (db ?env)"
    by (simp add: example_env_def)
  have b: "document_chunks (db ?env) = [example_row ''c1'', example_row ''c2'']"
    by (simp add: example_env_def)
  have c: "distinct (map row_chunk_id (document_chunks (db ?env)))"
    unfolding b by (simp add: example_row_def)
  have d: "distinct [''c2'', ''zz''] \<and> (\<exists>i \<in> set [''c2'', ''zz'']. i \<notin> row_chunk_id ` set (document_chunks (db ?env)))"
    unfolding b by (simp add: example_row_def)
  have e: "set [''c2'', ''zz''] \<inter> row_chunk_id ` set (document_chunks (db ?env)) = {''c2''}"
    unfolding b by (auto simp: example_row_def)
  from fetch_by_ids_only_requested [of ?env "[]" "[''c2'', ''zz'']"] a
  obtain cs where cs: "fst (fetchChunksByIds ?env [''c2'', ''zz''] []) = Inr cs"
    and s: "set (map chunk_id cs) = set [''c2'', ''zz''] \<inter> row_chunk_id ` set (document_chunks (db ?env))"
    and l: "distinct (map row_chunk_id (document_chunks (db ?env))) \<longrightarrow>
                  length cs = card (set [''c2'', ''zz''] \<inter> row_chunk_id ` set (document_chunks (db ?env)))
                \<and> length cs \<le> length [''c2'', ''zz'']
                \<and> (distinct [''c2'', ''zz''] \<and> (\<exists>i \<in> set [''c2'', ''zz'']. i \<notin> row_chunk_id ` set (document_chunks (db ?env)))
                      \<longrightarrow> length cs < length [''c2'', ''zz''])"
    by blast
  from l c d have "length cs < length [''c2'', ''zz'']" by blast
  with cs s e show ?thesis by (intro exI [of _ cs]) simp
qed

text \<open>
  C10. Every chunk that the fetch by identifier returns has similarity 0: the query
  selects the constant, whatever the row's embedding is.
\<close>

theorem fetch_by_ids_similarity_zero:
  assumes "fst (fetchChunksByIds env ids t) = Inr cs"
  shows "\<forall>c \<in> set cs. similarity c = 0"
  using fetch_result [OF assms] by auto

theorem fetch_by_ids_similarity_zero_witness:
  "fst (fetchChunksByIds (example_env [example_row ''c1'', example_row ''c2''] [] None) [''c2''] [])
     = Inr [(example_chunk ''c2'')\<lparr>similarity := 0\<rparr>]
   \<and> similarity ((example_chunk ''c2'')\<lparr>similarity := 0\<rparr>) = 0
   \<and> similarity (example_chunk ''c2'') = 1"
proof -
  have h: "fst (fetchChunksByIds (example_env [example_row ''c1'', example_row ''c2''] [] None) [''c2''] [])
     = Inr [(example_chunk ''c2'')\<lparr>similarity := 0\<rparr>]"
    by (simp add: fetchChunksByIds_def example_env_def example_row_def example_chunk_def
        db_execute_def call_io_def)
  show ?thesis
    using fetch_by_ids_similarity_zero [OF h] h by (simp add: example_chunk_def)
qed

section \<open>Malformed replies of the generation model\<close>

text \<open>
  C8, as amended. A reply counts as malformed when \<^verbatim>\<open>JSON.parse\<close> throws on its cleaned
  text. Whenever the prompt was built and the model replied, neither stage fails on such a
  reply: \<^verbatim>\<open>runDataChecker\<close> returns null, as it does for a reply that cleans to
  \<^verbatim>\<open>null\<close> or to the empty string; \<^verbatim>\<open>runRespuestaFinal\<close> returns the generic rationale,
  an empty citation, \<^verbatim>\<open>handoff: false\<close>, and as answer the raw reply with the white space
  at both ends removed (\<^verbatim>\<open>raw.trim()\<close>), not the raw reply itself.
\<close>

theorem malformed_reply_recovered:
  "(buildPrompt env prompt_dataChecker
       [(''question'', question), (''retrieved_document'', idConstraint cs @ formatChunks cs)] = Inr p
     \<and> generateContent env p = Inr reply
     \<and> raw = (case reply of None \<Rightarrow> [] | Some s \<Rightarrow> s)
     \<and> (trim (replace_fences (trim raw)) = ''null'' \<or> trim (replace_fences (trim raw)) = []
        \<or> parseJSON (JSON_parse_checker env) (trim (replace_fences (trim raw))) = None)
     \<longrightarrow> fst (runDataChecker env question cs t) = Inr None)
   \<and> (buildPrompt env prompt_respuestaFinal
         [(''question'', question), (''retrieved_document'', formatChunks cs),
          (''client_name'', clientName), (''mensaje_original'', question), (''contexto'', [])] = Inr p'
       \<and> generateContent env p' = Inr reply'
       \<and> raw' = (case reply' of None \<Rightarrow> [] | Some s \<Rightarrow> s)
       \<and> parseJSON (JSON_parse_final env) raw' = None
     \<longrightarrow> fst (runRespuestaFinal env question cs t) =
           Inr \<lparr>logica = ''Respuesta generada directamente.'', docuementacion = [],
                respuesta = trim raw', handoff = False\<rparr>)"
  by (auto simp: runDataChecker_result runRespuestaFinal_result dataChecker_outcome_null
      respuestaFinal_outcome_raw)

text \<open>
  The reply \<^verbatim>\<open>" no json "\<close>, which parses in neither stage.
\<close>

theorem malformed_reply_recovered_witness:
  "fst (runDataChecker (example_env [] '' no json '' None) ''q'' [] []) = Inr None
   \<and> fst (runRespuestaFinal (example_env [] '' no json '' None) ''q'' [] []) =
           Inr \<lparr>logica = ''Respuesta generada directamente.'', docuementacion = [],
                respuesta = ''no json'', handoff = False\<rparr>"
proof -
  let ?env = "example_env [] '' no json '' None"
  have a: "buildPrompt ?env name vars = Inr name" for name vars
    by (simp add: example_env_def)
  have b: "generateContent ?env p = Inr (Some '' no json '')" for p
    by (simp add: example_env_def)
  have c: "parseJSON (JSON_parse_checker ?env) s = None" for s
    by (simp add: example_env_def parseJSON_def)
  have d: "parseJSON (JSON_parse_final ?env) s = None" for s
    by (simp add: example_env_def parseJSON_def)
  have e: "trim '' no json '' = ''no json''"
    by (simp add: trim_def is_js_space_def)
  show ?thesis
    using malformed_reply_recovered [of ?env "''q''" "[]" prompt_dataChecker "Some '' no json ''"
        "'' no json ''" "[]" prompt_respuestaFinal "Some '' no json ''" "'' no json ''"]
      a b c d e
    by simp
qed

text \<open>
  C8, as stated, fails on that reply: the answer returned is \<^verbatim>\<open>"no json"\<close>, which is not
  the entire raw reply.
\<close>

theorem malformed_reply_answer_counterexample:
  "parseJSON (JSON_parse_final (example_env [] '' no json '' None)) '' no json '' = None
   \<and> generateContent (example_env [] '' no json '' None) prompt_respuestaFinal
        = Inr (Some '' no json '')
   \<and> fst (runRespuestaFinal (example_env [] '' no json '' None) ''q'' [] [])
        = Inr \<lparr>logica = ''Respuesta generada directamente.'', docuementacion = [],
               respuesta = ''no json'', handoff = False\<rparr>
   \<and> ''no json'' \<noteq> '' no json ''"
  by (simp add: example_env_def parseJSON_def runRespuestaFinal_def bind_io_def buildPrompt_io_def
      call_io_def return_io_def callGemini_def respuestaFinal_outcome_def trim_def is_js_space_def)

section \<open>Requests with no candidate\<close>

text \<open>
  C1, as amended. Let a retrieval of a positive number of chunks return no candidate
  (the table is then empty, and every retrieval of the request returns none). A run of
  \<^verbatim>\<open>executeRAGPipeline\<close> in which no stage fails returns an empty source list, has
  invoked the answer generator once, on the empty selection, and returns that generator's
  answer and handoff flag. The route \<^verbatim>\<open>POST /ask\<close> of the single-file server never
  invokes the generator on such a request, and every 200 response it gives is the
  escalation body: the fixed message, no sources, \<^verbatim>\<open>escalated: true\<close>.
\<close>

theorem zero_candidates_pipeline:
  assumes "fst (retrieveChunks env e k u) = Inr []" and "0 < k"
  shows "(\<forall>r. fst (executeRAGPipeline env st q t) = Inr r \<longrightarrow>
            res_sources r = []
          \<and> generator_calls (snd (executeRAGPipeline env st q t)) = generator_calls t + 1
          \<and> (\<exists>finalAnswer. fst (runRespuestaFinal env q [] []) = Inr finalAnswer
               \<and> res_answer r = respuesta finalAnswer \<and> res_handoff r = handoff finalAnswer))
       \<and> generator_calls (snd (legacy_ask env st question t)) = generator_calls t
       \<and> (\<forall>body. fst (legacy_ask env st question t) = Json200 body \<longrightarrow> body = escalation_body)"
proof (intro conjI allI impI)
  have tbl: "document_chunks (db env) = []"
    using assms retrieveChunks_zero_iff [of env e k u] by simp
  fix r assume ok: "fst (executeRAGPipeline env st q t) = Inr r"
  from executeRAGPipeline_success [OF ok] obtain embedding t1 cs t2 checkerResult t3 finalAnswer t4
    where e: "embedQuestion env st q t = (Inr embedding, t1)"
      and rc: "retrieveChunks env embedding topK t1 = (Inr cs, t2)"
      and c: "runDataChecker env q cs t2 = (Inr checkerResult, t3)"
      and f: "runRespuestaFinal env q (chunks (validateAndGetRelevantChunks checkerResult cs)) t3
             = (Inr finalAnswer, t4)"
      and s: "snd (executeRAGPipeline env st q t) = t4"
      and r: "r = \<lparr>res_answer = respuesta finalAnswer, res_logic = logica finalAnswer,
                 res_sources = map sourceReference (chunks (validateAndGetRelevantChunks checkerResult cs)),
                 res_handoff = handoff finalAnswer\<rparr>"
    by blast
  have cs: "cs = []"
    using rc retrieveChunks_empty_table [OF tbl, of embedding topK t1] by (simp split: if_splits)
  have sel: "chunks (validateAndGetRelevantChunks checkerResult cs) = []"
    unfolding cs by (rule validate_empty)
  show "res_sources r = []"
    using r sel by simp
  show "generator_calls (snd (executeRAGPipeline env st q t)) = generator_calls t + 1"
    using embedQuestion_trace [OF e] retrieveChunks_trace [OF rc] runDataChecker_trace [OF c]
      runRespuestaFinal_trace [OF f] s by simp
  have "fst (runRespuestaFinal env q [] []) = Inr finalAnswer"
    using f sel runRespuestaFinal_value [of env q "[]" t3] by simp
  then show "\<exists>finalAnswer. fst (runRespuestaFinal env q [] []) = Inr finalAnswer
               \<and> res_answer r = respuesta finalAnswer \<and> res_handoff r = handoff finalAnswer"
    using r by auto
next
  have tbl: "document_chunks (db env) = []"
    using assms retrieveChunks_zero_iff [of env e k u] by simp
  show "generator_calls (snd (legacy_ask env st question t)) = generator_calls t"
    using legacy_ask_empty_table [OF tbl] by blast
next
  have tbl: "document_chunks (db env) = []"
    using assms retrieveChunks_zero_iff [of env e k u] by simp
  fix body assume "fst (legacy_ask env st question t) = Json200 body"
  then show "body = escalation_body"
    using legacy_ask_empty_table [OF tbl] by blast
qed

text \<open>
  An empty table and a generation model that always replies \<^verbatim>\<open>Treinta dias.\<close>
\<close>

theorem zero_candidates_pipeline_witness:
  "res_sources \<lparr>res_answer = ''Treinta dias.'', res_logic = ''Respuesta generada directamente.'',
              res_sources = [], res_handoff = False\<rparr> = []
   \<and> generator_calls (snd (executeRAGPipeline (example_env [] ''Treinta dias.'' None)
                              initial_dimensions ''q'' [])) = generator_calls [] + 1
   \<and> generator_calls (snd (legacy_ask (example_env [] ''Treinta dias.'' None)
                              initial_dimensions (Some ''q'') [])) = generator_calls []"
proof -
  let ?env = "example_env [] ''Treinta dias.'' None"
  have h: "fst (retrieveChunks ?env [] topK []) = Inr []"
    by (simp add: retrieveChunks_def example_env_def db_execute_def call_io_def)
  have k: "0 < topK"
    by (simp add: topK_def)
  have ok: "fst (executeRAGPipeline ?env initial_dimensions ''q'' [])
       = Inr \<lparr>res_answer = ''Treinta dias.'', res_logic = ''Respuesta generada directamente.'',
              res_sources = [], res_handoff = False\<rparr>"
    by (simp add: run_defs trim_def is_js_space_def)
  show ?thesis
    using zero_candidates_pipeline [OF h k, of initial_dimensions "''q''" "[]" "Some ''q''"] ok
    by simp
qed

text \<open>
  C1, as stated, fails on the controller: on that input retrieval returns no candidate,
  the generator is invoked once, and the result carries its answer with
  \<^verbatim>\<open>handoff: false\<close>.
\<close>

theorem zero_candidates_pipeline_counterexample:
  "fst (retrieveChunks (example_env [] ''Treinta dias.'' None) [] topK []) = Inr []
   \<and> fst (executeRAGPipeline (example_env [] ''Treinta dias.'' None) initial_dimensions ''q'' [])
       = Inr \<lparr>res_answer = ''Treinta dias.'', res_logic = ''Respuesta generada directamente.'',
              res_sources = [], res_handoff = False\<rparr>
   \<and> generator_calls (snd (executeRAGPipeline (example_env [] ''Treinta dias.'' None)
                              initial_dimensions ''q'' [])) = 1"
  by (simp add: run_defs trim_def is_js_space_def generator_calls_list gen_call_simps
      generator_calls_append)

section \<open>The handoff flag\<close>

text \<open>
  C2, as amended. Every result of \<^verbatim>\<open>executeRAGPipeline\<close> carries the answer, the logic
  and the handoff flag that the answer generator returned for the validated selection, and
  as sources the references of that selection, whether the flag is true or false. In the
  route \<^verbatim>\<open>POST /ask\<close> of the single-file server, a 200 response with
  \<^verbatim>\<open>escalated: true\<close> has no sources and the fixed message as answer.
\<close>

theorem handoff_passthrough:
  "(\<forall>r. fst (executeRAGPipeline env st q t) = Inr r \<longrightarrow>
      (\<exists>embedding cs checkerResult finalAnswer.
          fst (embedQuestion env st q []) = Inr embedding
        \<and> fst (retrieveChunks env embedding topK []) = Inr cs
        \<and> fst (runDataChecker env q cs []) = Inr checkerResult
        \<and> fst (runRespuestaFinal env q (chunks (validateAndGetRelevantChunks checkerResult cs)) [])
            = Inr finalAnswer
        \<and> r = \<lparr>res_answer = respuesta finalAnswer, res_logic = logica finalAnswer,
                res_sources = map sourceReference (chunks (validateAndGetRelevantChunks checkerResult cs)),
                res_handoff = handoff finalAnswer\<rparr>))
   \<and> (\<forall>body. fst (legacy_ask env st question t) = Json200 body \<and> ask_escalated body \<longrightarrow>
         ask_sources body = [] \<and> ask_answer body = NO_ANSWER_MESSAGE)"
proof (intro conjI allI impI)
  fix r assume ok: "fst (executeRAGPipeline env st q t) = Inr r"
  from executeRAGPipeline_success [OF ok] obtain embedding t1 cs t2 checkerResult t3 finalAnswer t4
    where e: "embedQuestion env st q t = (Inr embedding, t1)"
      and rc: "retrieveChunks env embedding topK t1 = (Inr cs, t2)"
      and c: "runDataChecker env q cs t2 = (Inr checkerResult, t3)"
      and f: "runRespuestaFinal env q (chunks (validateAndGetRelevantChunks checkerResult cs)) t3
             = (Inr finalAnswer, t4)"
      and r: "r = \<lparr>res_answer = respuesta finalAnswer, res_logic = logica finalAnswer,
                 res_sources = map sourceReference (chunks (validateAndGetRelevantChunks checkerResult cs)),
                 res_handoff = handoff finalAnswer\<rparr>"
    by blast
  have "fst (embedQuestion env st q []) = Inr embedding"
    using e embedQuestion_value [of env st q t] by simp
  moreover have "fst (retrieveChunks env embedding topK []) = Inr cs"
    using rc retrieveChunks_value [of env embedding topK t1] by simp
  moreover have "fst (runDataChecker env q cs []) = Inr checkerResult"
    using c runDataChecker_value [of env q cs t2] by simp
  moreover have "fst (runRespuestaFinal env q (chunks (validateAndGetRelevantChunks checkerResult cs)) [])
            = Inr finalAnswer"
    using f runRespuestaFinal_value [of env q "chunks (validateAndGetRelevantChunks checkerResult cs)" t3]
    by simp
  ultimately show "\<exists>embedding cs checkerResult finalAnswer.
          fst (embedQuestion env st q []) = Inr embedding
        \<and> fst (retrieveChunks env embedding topK []) = Inr cs
        \<and> fst (runDataChecker env q cs []) = Inr checkerResult
        \<and> fst (runRespuestaFinal env q (chunks (validateAndGetRelevantChunks checkerResult cs)) [])
            = Inr finalAnswer
        \<and> r = \<lparr>res_answer = respuesta finalAnswer, res_logic = logica finalAnswer,
                res_sources = map sourceReference (chunks (validateAndGetRelevantChunks checkerResult cs)),
                res_handoff = handoff finalAnswer\<rparr>"
    using r by blast
next
  fix body assume h: "fst (legacy_ask env st question t) = Json200 body \<and> ask_escalated body"
  then have "body = escalation_body"
    using legacy_ask_escalated by blast
  then show "ask_sources body = []" and "ask_answer body = NO_ANSWER_MESSAGE"
    by (simp_all add: escalation_body_def)
qed

text \<open>
  A table of one row, and a generator reply that parses to an answer with
  \<^verbatim>\<open>handoff: true\<close>; for the single-file server, an empty table.
\<close>

theorem handoff_passthrough_witness:
  "(\<exists>embedding cs checkerResult finalAnswer.
       fst (embedQuestion (example_env [example_row ''c1''] ''{}'' (Some example_handoff_answer))
              initial_dimensions ''q'' []) = Inr embedding
     \<and> fst (retrieveChunks (example_env [example_row ''c1''] ''{}'' (Some example_handoff_answer))
              embedding topK []) = Inr cs
     \<and> fst (runDataChecker (example_env [example_row ''c1''] ''{}'' (Some example_handoff_answer))
              ''q'' cs []) = Inr checkerResult
     \<and> fst (runRespuestaFinal (example_env [example_row ''c1''] ''{}'' (Some example_handoff_answer))
              ''q'' (chunks (validateAndGetRelevantChunks checkerResult cs)) []) = Inr finalAnswer
     \<and> \<lparr>res_answer = ''No lo se.'', res_logic = ''Fuera de alcance.'',
         res_sources = [\<lparr>ref_chunk_id = ''c1'', ref_section_title = ''Devoluciones'',
                         ref_source_file = ''manual.md''\<rparr>],
         res_handoff = True\<rparr>
        = \<lparr>res_answer = respuesta finalAnswer, res_logic = logica finalAnswer,
           res_sources = map sourceReference (chunks (validateAndGetRelevantChunks checkerResult cs)),
           res_handoff = handoff finalAnswer\<rparr>)
   \<and> ask_sources escalation_body = [] \<and> ask_answer escalation_body = NO_ANSWER_MESSAGE"
  using handoff_passthrough
      [of "example_env [example_row ''c1''] ''{}'' (Some example_handoff_answer)"
          initial_dimensions "''q''" "[]" "Some ''q''"]
    handoff_passthrough
      [of "example_env [] ''{}'' None" initial_dimensions "''q''" "[]" "Some ''q''"]
    example_handoff_run example_legacy_escalation
  by blast

text \<open>
  C2, as stated, fails on the controller: on that input the result has
  \<^verbatim>\<open>handoff: true\<close>, one source, and the generator's answer, which is not the fixed
  escalation message of the single-file server (the layered code has no such message).
\<close>

theorem handoff_passthrough_counterexample:
  "fst (executeRAGPipeline (example_env [example_row ''c1''] ''{}'' (Some example_handoff_answer))
          initial_dimensions ''q'' [])
     = Inr \<lparr>res_answer = ''No lo se.'', res_logic = ''Fuera de alcance.'',
            res_sources = [\<lparr>ref_chunk_id = ''c1'', ref_section_title = ''Devoluciones'',
                            ref_source_file = ''manual.md''\<rparr>],
            res_handoff = True\<rparr>
   \<and> ''No lo se.'' \<noteq> NO_ANSWER_MESSAGE"
  by (simp add: run_defs trim_def is_js_space_def example_row_def example_handoff_answer_def
      sourceReference_def NO_ANSWER_MESSAGE_def)


end
